theory Spec2Isabelle
  imports Main
begin

section \<open>The root command of the daemon (package cmd)\<close>

text \<open>
  The command is one Go file: \<open>rootCommand\<close> with its \<open>PreRun\<close> hook
  (\<open>initConfig\<close>, \<open>initLogging\<close>, the flag validation) and its \<open>Run\<close> function
  \<open>rootCmdRun\<close>. Everything the code does to the outside world (printing, logging,
  creating directories, starting goroutines, calling a listener) is recorded as an
  event; the main flow of the process is the list of events it produces, in program
  order, together with how it ends. Results of calls into the operating system and
  into libraries are inputs, collected in the record \<open>env\<close>.
\<close>

subsection \<open>Values\<close>

type_synonym path = string

text \<open>A Go \<open>error\<close>. \<open>errors.Is(err, os.ErrNotExist)\<close> holds for the first form only.\<close>

datatype error = ErrNotExist string | ErrOther string

fun is_not_exist :: "error \<Rightarrow> bool" where
  "is_not_exist (ErrNotExist _) = True"
| "is_not_exist (ErrOther _) = False"

text \<open>
  The configuration (package config is not among the source files): the fields the
  command reads through \<open>config.Get()\<close>.
\<close>

record system_user =
  Uid :: int
  Gid :: int

record system_configuration =
  RootDirectory :: path
  LogDirectory :: path
  ArchiveDirectory :: path
  BackupDirectory :: path
  Username :: string
  Timezone :: string
  User :: system_user

record ssl_configuration =
  Enabled :: bool
  CertificateFile :: path
  KeyFile :: path

record api_configuration =
  Host :: string
  Port :: int
  Ssl :: ssl_configuration

record configuration =
  Debug :: bool
  System :: system_configuration
  Api :: api_configuration

text \<open>The flags of the command, as \<open>init\<close> registers them.\<close>

record flags =
  pprof :: bool
  pprof_block_rate :: int
  pprof_port :: int
  auto_tls :: bool
  tls_hostname :: string
  ignore_certificate_errors :: bool

text \<open>\<open>crypto/tls\<close> and \<open>autocert\<close> values, as far as the command touches them.\<close>

datatype prompt = AcceptTOS

record autocert_manager =
  Prompt :: prompt
  Cache :: path
  HostPolicy :: "string list"

record tls_config =
  GetCertificate :: "autocert_manager option"
  NextProtos :: "string list"

record tls_client_config =
  InsecureSkipVerify :: bool

definition ALPNProto :: string where
  "ALPNProto = ''acme-tls/1''"

text \<open>\<open>router.Configure\<close>: a gin engine in release mode with two middlewares.\<close>

datatype middleware = Recovery | LoggerWithFormatter

record engine =
  gin_mode :: string
  middlewares :: "middleware list"

definition Configure :: engine where
  "Configure = \<lparr>gin_mode = ''release'', middlewares = [Recovery, LoggerWithFormatter]\<rparr>"

text \<open>
  \<open>http.Server\<close>. \<open>TLSConfig\<close> is a pointer in Go: \<open>None\<close> is nil, \<open>Some c\<close> is the
  value it points to when the server is handed to a listener.
\<close>

record server =
  Addr :: string
  Handler :: engine
  TLSConfig :: "tls_config option"

subsection \<open>Events and outcomes\<close>

text \<open>
  \<open>Log\<close> is a call on the apex logger, with its level, message and fields;
  \<open>StdFatalf\<close> is \<open>log2.Fatalf\<close> of the standard library. \<open>initLogging\<close> sets the
  logger's level to info or debug, so entries from warn upwards are always written.
  \<open>Go\<close> is a \<open>go\<close> statement; what the goroutine does is the trace of its own.
\<close>

datatype level = DebugLevel | InfoLevel | WarnLevel | ErrorLevel | FatalLevel

datatype field_value =
    FString string
  | FBool bool
  | FInt int
  | FError error
  | FUser system_user

type_synonym fields = "(string \<times> field_value) list"

datatype rect = Rect (min_x: int) (min_y: int) (max_x: int) (max_y: int)

datatype task =
    ProfilerTask int
  | AutocertHTTPTask autocert_manager
  | CaptureTask

datatype event =
    PrintLogo int
  | Println string
  | PrintConfigurationNotice
  | StdFatalf string error
  | Log level string fields
  | SetLevel level
  | SetHandler path
  | MkdirAll path nat
  | SetBlockProfileRate int
  | SetMutexProfileFraction int
  | Go task
  | ListenAndServeTLS server path path
  | ListenAndServe server
  | HttpListenAndServe string
  | VideoCaptureDevice int
  | NewWindow string
  | Rectangle rect
  | PutText string int int
  | IMShow
  | WaitKey int
  | CloseCapture
  | CloseWindow
  | CloseMat
  | CloseClassifier

text \<open>
  How a flow ends: the process exits with a status (\<open>os.Exit\<close>, also behind
  \<open>log.Fatal\<close> and \<open>log2.Fatalf\<close>), the flow is still inside a call that has not
  returned (\<open>Blocked\<close>: a listener that serves, a loop that goes on), or the
  function returns.
\<close>

datatype outcome = Exited int | Blocked | Returned

text \<open>A listener either keeps serving or returns with its error value.\<close>

datatype serve_result = ServesForever | ServeReturns "error option"

text \<open>What one iteration of the capture loop observes.\<close>

record frame_obs =
  read_ok :: bool
  img_empty :: bool
  rects :: "rect list"
  key :: int

text \<open>The results the goroutines get from the outside.\<close>

record task_env =
  profiler_serve :: serve_result
  autocert_serve :: serve_result
  open_device :: "error option"
  classifier_load :: bool
  text_size_x :: int
  frames :: "frame_obs list"
  capture_close :: "error option"
  window_close :: "error option"
  classifier_close :: "error option"

text \<open>
  The results the main flow gets from the outside, one field for each call site:
  \<open>time.Now().Year()\<close>, \<open>os.Getwd\<close>, \<open>config.FromFile\<close>, the \<open>os.MkdirAll\<close> and
  \<open>logrotate.NewFile\<close> of \<open>initLogging\<close>, \<open>config.EnableLogRotation\<close>,
  \<open>config.WriteToDisk\<close>, the two \<open>os.MkdirAll\<close> of the run function, and the call of
  the main listener. The functions of package config are not among the source files,
  so what they return is an input like the rest. \<open>pathJoin\<close> stands for \<open>path.Join\<close>
  and \<open>filepath.Join\<close> of two elements, and \<open>pathClean\<close> for \<open>path.Clean\<close>.
\<close>

record env =
  year :: int
  pathJoin :: "path \<Rightarrow> path \<Rightarrow> path"
  pathClean :: "path \<Rightarrow> path"
  getwd :: "error + path"
  FromFile :: "path \<Rightarrow> error + configuration"
  mkdir_install :: "error option"
  logrotate_NewFile :: "error option"
  EnableLogRotation :: "error option"
  WriteToDisk :: "error option"
  mkdir_archive :: "error option"
  mkdir_backup :: "error option"
  main_serve :: serve_result
  tasks :: task_env

text \<open>
  The package-level variables the command reads and writes: \<open>configPath\<close> and
  \<open>debug\<close>, the configuration singleton behind \<open>config.Get()\<close>,
  \<open>config.DefaultTLSConfig\<close> (a pointer that is not nil; the field holds the value
  behind it), and the \<open>TLSClientConfig\<close> of \<open>http.DefaultTransport\<close> (\<open>None\<close> is
  nil).
\<close>

record globals =
  configPath :: path
  debug :: bool
  cfg :: configuration
  DefaultTLSConfig :: tls_config
  TLSClientConfig :: "tls_client_config option"

record run =
  trace :: "event list"
  outcome :: outcome
  final :: globals

subsection \<open>Formatting\<close>

text \<open>The permission bits \<open>0o700\<close> and \<open>0o755\<close>.\<close>

definition mode_0700 :: nat where
  "mode_0700 = 7 * 64"

definition mode_0755 :: nat where
  "mode_0755 = 7 * 64 + 5 * 8 + 5"

definition digit_char :: "nat \<Rightarrow> char" where
  "digit_char d = char_of (48 + d)"

fun nat_decimal :: "nat \<Rightarrow> string" where
  "nat_decimal n =
     (if n < 10 then [digit_char n] else nat_decimal (n div 10) @ [digit_char (n mod 10)])"

declare nat_decimal.simps [simp del]

text \<open>\<open>strconv.Itoa\<close>, and \<open>%d\<close> of \<open>fmt\<close>.\<close>

definition Itoa :: "int \<Rightarrow> string" where
  "Itoa i = (if i < 0 then CHR ''-'' # nat_decimal (nat (- i)) else nat_decimal (nat i))"

text \<open>Go's integer division truncates toward zero.\<close>

definition go_div :: "int \<Rightarrow> int \<Rightarrow> int" where
  "go_div a b = sgn a * sgn b * (\<bar>a\<bar> div \<bar>b\<bar>)"

definition usage_message :: string where
  "usage_message =
     ''A TLS hostname must be provided when running wings with automatic TLS, e.g.:''
     @ [CHR 0x0A, CHR 0x0A]
     @ ''    ./wings --auto-tls --tls-hostname my.example.com''"

definition auto_tls_listening_message :: string where
  "auto_tls_listening_message =
     ''webserver is now listening with auto-TLS enabled; certificates will be automatically generated by Let''
     @ [CHR 0x27] @ ''s Encrypt''"

definition ignore_certificate_errors_warning :: event where
  "ignore_certificate_errors_warning =
     Log WarnLevel
       ''running with --ignore-certificate-errors: TLS certificate host chains and name will not be verified''
       []"

subsection \<open>The pre-run hook\<close>

text \<open>
  Statements in sequence: what follows runs only when what precedes has returned, on
  the globals it left.
\<close>

definition and_then :: "run \<Rightarrow> (globals \<Rightarrow> run) \<Rightarrow> run" where
  "and_then r k =
     (case outcome r of
        Returned \<Rightarrow> (let r' = k (final r) in r'\<lparr>trace := trace r @ trace r'\<rparr>)
      | _ \<Rightarrow> r)"

text \<open>
  \<open>initConfig\<close>. \<open>config.SetDebugViaFlag\<close> (not among the source files) is taken to
  set the \<open>Debug\<close> field of the configuration.
\<close>

definition initConfig :: "env \<Rightarrow> globals \<Rightarrow> run" where
  "initConfig e g =
     and_then
       (if \<not> (take 1 (configPath g) = ''/'') then
          (case getwd e of
             Inl err \<Rightarrow>
               \<lparr>trace = [StdFatalf ''cmd/root: could not determine directory: %s'' err],
                outcome = Exited 1, final = g\<rparr>
           | Inr d \<Rightarrow>
               \<lparr>trace = [], outcome = Returned,
                final = g\<lparr>configPath := pathClean e (pathJoin e d (configPath g))\<rparr>\<rparr>)
        else \<lparr>trace = [], outcome = Returned, final = g\<rparr>)
       (\<lambda>g1.
          case FromFile e (configPath g1) of
            Inl err \<Rightarrow>
              (if is_not_exist err then
                 \<lparr>trace = [PrintConfigurationNotice], outcome = Exited 1, final = g1\<rparr>
               else
                 \<lparr>trace = [StdFatalf ''cmd/root: error while reading configuration file: %s'' err],
                  outcome = Exited 1, final = g1\<rparr>)
          | Inr c \<Rightarrow>
              \<lparr>trace = [], outcome = Returned,
               final = g1\<lparr>cfg := (if debug g1 \<and> \<not> Debug c then c\<lparr>Debug := debug g1\<rparr> else c)\<rparr>\<rparr>)"

definition initLogging :: "env \<Rightarrow> globals \<Rightarrow> run" where
  "initLogging e g =
     (let dir = LogDirectory (System (cfg g));
          t_mkdir = [MkdirAll (pathJoin e dir ''/install'') mode_0700]
      in case mkdir_install e of
           Some err \<Rightarrow>
             \<lparr>trace = t_mkdir
                @ [StdFatalf ''cmd/root: failed to create install directory path: %s'' err],
              outcome = Exited 1, final = g\<rparr>
         | None \<Rightarrow>
             (let p = pathJoin e dir ''/sleepydrive.log'' in
              case logrotate_NewFile e of
                Some err \<Rightarrow>
                  \<lparr>trace = t_mkdir
                     @ [StdFatalf ''cmd/root: failed to create sleepydrive log: %s'' err],
                   outcome = Exited 1, final = g\<rparr>
              | None \<Rightarrow>
                  \<lparr>trace = t_mkdir @ [SetLevel InfoLevel]
                     @ (if Debug (cfg g) then [SetLevel DebugLevel] else [])
                     @ [SetHandler p,
                        Log InfoLevel ''writing log files to disk'' [(''path'', FString p)]],
                   outcome = Returned, final = g\<rparr>))"

text \<open>The \<open>PreRun\<close> function of \<open>rootCommand\<close>.\<close>

definition PreRun :: "env \<Rightarrow> flags \<Rightarrow> globals \<Rightarrow> run" where
  "PreRun e f g =
     and_then (initConfig e g) (\<lambda>g1.
     and_then (initLogging e g1) (\<lambda>g2.
       if auto_tls f then
         (if tls_hostname f = [] then
            \<lparr>trace = [Println usage_message], outcome = Exited 1, final = g2\<rparr>
          else \<lparr>trace = [], outcome = Returned, final = g2\<rparr>)
       else \<lparr>trace = [], outcome = Returned, final = g2\<rparr>))"

subsection \<open>The run function\<close>

text \<open>
  Lines 85 to 104 of the command: from \<open>printLogo\<close> to the log entry on the system
  user, with the switch of \<open>--ignore-certificate-errors\<close> in between.
\<close>

definition boot_prologue :: "env \<Rightarrow> flags \<Rightarrow> globals \<Rightarrow> event list \<times> globals" where
  "boot_prologue e f g =
     (let sys = System (cfg g);
          t_intro =
            [PrintLogo (year e),
             Log DebugLevel ''running in debug mode'' [],
             Log InfoLevel ''loading configuration from file''
               [(''config_file'', FString (configPath g))]];
          t_user =
            [Log InfoLevel ''configured sleepydrive with system timezone''
               [(''timezone'', FString (Timezone sys))],
             Log InfoLevel ''checking for pterodactyl system user''
               [(''username'', FUser (User sys))],
             Log InfoLevel ''configured system user successfully''
               [(''username'', FString (Username sys)),
                (''uid'', FInt (Uid (User sys))),
                (''gid'', FInt (Gid (User sys)))]]
      in if ignore_certificate_errors f then
           (t_intro @ [ignore_certificate_errors_warning] @ t_user,
            g\<lparr>TLSClientConfig := Some \<lparr>InsecureSkipVerify = True\<rparr>\<rparr>)
         else (t_intro @ t_user, g))"

text \<open>Lines 114 to 123: \<open>os.MkdirAll\<close> on the archive and on the backup directory.\<close>

definition provision_directories :: "env \<Rightarrow> system_configuration \<Rightarrow> event list" where
  "provision_directories e sys =
     [MkdirAll (ArchiveDirectory sys) mode_0755]
     @ (case mkdir_archive e of
          Some err \<Rightarrow>
            [Log ErrorLevel ''failed to create archive directory'' [(''error'', FError err)]]
        | None \<Rightarrow> [])
     @ [MkdirAll (BackupDirectory sys) mode_0755]
     @ (case mkdir_backup e of
          Some err \<Rightarrow>
            [Log ErrorLevel ''failed to create backup directory'' [(''error'', FError err)]]
        | None \<Rightarrow> [])"

text \<open>Lines 141 to 145: the server, with \<open>TLSConfig\<close> pointing to \<open>config.DefaultTLSConfig\<close>.\<close>

definition new_server :: "globals \<Rightarrow> api_configuration \<Rightarrow> server" where
  "new_server g api =
     \<lparr>Addr = Host api @ '':'' @ Itoa (Port api),
      Handler = Configure,
      TLSConfig = Some (DefaultTLSConfig g)\<rparr>"

text \<open>Lines 147 to 159: the profiler.\<close>

definition profiler_setup :: "flags \<Rightarrow> event list" where
  "profiler_setup f =
     (if pprof f then
        (if pprof_block_rate f > 0 then [SetBlockProfileRate (pprof_block_rate f)] else [])
        @ [SetMutexProfileFraction 100, Go (ProfilerTask (pprof_port f))]
      else [])"

text \<open>
  What follows the call of the main listener: it keeps serving, or it returns an
  error and \<open>log.Fatal\<close> ends the process, or it returns nil.
\<close>

definition after_listen ::
  "env \<Rightarrow> globals \<Rightarrow> event list \<Rightarrow> (error \<Rightarrow> event) \<Rightarrow> run" where
  "after_listen e g t fatal =
     (case main_serve e of
        ServesForever \<Rightarrow> \<lparr>trace = t, outcome = Blocked, final = g\<rparr>
      | ServeReturns (Some err) \<Rightarrow> \<lparr>trace = t @ [fatal err], outcome = Exited 1, final = g\<rparr>
      | ServeReturns None \<Rightarrow> \<lparr>trace = t, outcome = Returned, final = g\<rparr>)"

text \<open>
  Lines 162 to 186, the branch \<open>if autotls { ... return }\<close>. The assignments
  through \<open>s.TLSConfig\<close> change \<open>config.DefaultTLSConfig\<close>, which it points to.
\<close>

definition serve_auto_tls ::
  "env \<Rightarrow> globals \<Rightarrow> system_configuration \<Rightarrow> string \<Rightarrow> server \<Rightarrow> event list \<Rightarrow> run" where
  "serve_auto_tls e g sys tlshostname s t =
     (let m = \<lparr>Prompt = AcceptTOS,
               Cache = pathJoin e (RootDirectory sys) ''/.tls-cache'',
               HostPolicy = [tlshostname]\<rparr>;
          d = DefaultTLSConfig g;
          d' = d\<lparr>GetCertificate := Some m, NextProtos := NextProtos d @ [ALPNProto]\<rparr>;
          t' = t @ [Log InfoLevel auto_tls_listening_message [(''hostname'', FString tlshostname)],
                    Go (AutocertHTTPTask m),
                    ListenAndServeTLS (s\<lparr>TLSConfig := Some d'\<rparr>) [] []]
      in after_listen e (g\<lparr>DefaultTLSConfig := d'\<rparr>) t'
           (\<lambda>err. Log FatalLevel ''failed to configure HTTP server using auto-tls''
              [(''auto_tls'', FBool True), (''tls_hostname'', FString tlshostname),
               (''error'', FError err)]))"

text \<open>
  Lines 188 to 284, the rest of the function: the capture goroutine is started, then
  the server runs with the configured certificate, or with \<open>TLSConfig\<close> reset to nil
  over plain HTTP.
\<close>

definition serve_configured ::
  "env \<Rightarrow> globals \<Rightarrow> api_configuration \<Rightarrow> server \<Rightarrow> event list \<Rightarrow> run" where
  "serve_configured e g api s t =
     (let t' = t @ [Go CaptureTask] in
      if Enabled (Ssl api) then
        after_listen e g
          (t' @ [ListenAndServeTLS s (CertificateFile (Ssl api)) (KeyFile (Ssl api))])
          (\<lambda>err. Log FatalLevel ''failed to configure HTTPS server''
             [(''auto_tls'', FBool False), (''error'', FError err)])
      else
        after_listen e g
          (t' @ [ListenAndServe (s\<lparr>TLSConfig := None\<rparr>)])
          (\<lambda>err. Log FatalLevel ''failed to configure HTTP server'' [(''error'', FError err)]))"

text \<open>
  The function. Lines 125 to 129 read the two TLS flags and drop \<open>autotls\<close> when the
  host name is empty.
\<close>

definition rootCmdRun :: "env \<Rightarrow> flags \<Rightarrow> globals \<Rightarrow> run" where
  "rootCmdRun e f g0 =
     (case boot_prologue e f g0 of
        (t0, g) \<Rightarrow>
          (case EnableLogRotation e of
             Some err \<Rightarrow>
               \<lparr>trace = t0 @ [Log FatalLevel ''failed to configure log rotation on the system''
                                [(''error'', FError err)]],
                outcome = Exited 1, final = g\<rparr>
           | None \<Rightarrow>
               (case WriteToDisk e of
                  Some err \<Rightarrow>
                    \<lparr>trace = t0 @ [Log FatalLevel ''failed to write configuration to disk''
                                     [(''error'', FError err)]],
                     outcome = Exited 1, final = g\<rparr>
                | None \<Rightarrow>
                    (let sys = System (cfg g);
                         t1 = t0 @ provision_directories e sys;
                         tlshostname = tls_hostname f;
                         autotls = (if auto_tls f \<and> tlshostname = [] then False else auto_tls f);
                         api = Api (cfg g);
                         t2 = t1 @ [Log InfoLevel ''configuring internal webserver''
                                      [(''use_ssl'', FBool (Enabled (Ssl api))),
                                       (''use_auto_tls'', FBool autotls),
                                       (''host_address'', FString (Host api)),
                                       (''host_port'', FInt (Port api))]];
                         s = new_server g api;
                         t3 = t2 @ profiler_setup f
                     in if autotls then serve_auto_tls e g sys tlshostname s t3
                        else serve_configured e g api s t3))))"

text \<open>The command as cobra executes it: \<open>PreRun\<close>, then \<open>Run\<close>.\<close>

definition Execute :: "env \<Rightarrow> flags \<Rightarrow> globals \<Rightarrow> run" where
  "Execute e f g = and_then (PreRun e f g) (rootCmdRun e f)"

subsection \<open>The goroutines\<close>

text \<open>The profiler's goroutine: the result of \<open>http.ListenAndServe\<close> is dropped.\<close>

definition profiler_task :: "int \<Rightarrow> task_env \<Rightarrow> event list \<times> outcome" where
  "profiler_task port te =
     ([HttpListenAndServe (''localhost:'' @ Itoa port)],
      (case profiler_serve te of ServesForever \<Rightarrow> Blocked | ServeReturns _ \<Rightarrow> Returned))"

text \<open>The goroutine of autocert's HTTP server.\<close>

definition autocert_http_task :: "task_env \<Rightarrow> event list \<times> outcome" where
  "autocert_http_task te =
     (case autocert_serve te of
        ServesForever \<Rightarrow> ([HttpListenAndServe '':http''], Blocked)
      | ServeReturns (Some err) \<Rightarrow>
          ([HttpListenAndServe '':http'',
            Log ErrorLevel ''failed to serve autocert http server'' [(''error'', FError err)]],
           Returned)
      | ServeReturns None \<Rightarrow> ([HttpListenAndServe '':http''], Returned))"

text \<open>The capture goroutine. One rectangle and one label for each detected face.\<close>

definition annotate :: "task_env \<Rightarrow> rect \<Rightarrow> event list" where
  "annotate te r =
     [Rectangle r,
      PutText ''Human'' (min_x r + go_div (min_x r) 2 - go_div (text_size_x te) 2) (min_y r - 2)]"

definition cannot_read_device :: event where
  "cannot_read_device =
     Log ErrorLevel ''cannot read device'' [(''subsystem'', FString ''camera''), (''device'', FInt 0)]"

text \<open>
  The \<open>for\<close> loop, run on the observations of its iterations in order. The second
  component says whether the loop reached \<open>break\<close>; \<open>False\<close> is a loop that has used
  up the observations and goes on.
\<close>

fun capture_loop :: "task_env \<Rightarrow> frame_obs list \<Rightarrow> event list \<times> bool" where
  "capture_loop te [] = ([], False)"
| "capture_loop te (x # xs) =
     (let t_read = (if \<not> read_ok x then [cannot_read_device] else []) in
      if img_empty x then
        (case capture_loop te xs of (t, b) \<Rightarrow> (t_read @ t, b))
      else
        (let t_frame =
               t_read
               @ [Log DebugLevel (''found '' @ Itoa (int (length (rects x))) @ '' faces'') []]
               @ concat (map (annotate te) (rects x))
               @ [IMShow, WaitKey 1]
         in if key x \<ge> 0 then (t_frame, True)
            else (case capture_loop te xs of (t, b) \<Rightarrow> (t_frame @ t, b))))"

text \<open>The deferred calls, last registered first.\<close>

definition deferred_closes :: "task_env \<Rightarrow> event list" where
  "deferred_closes te =
     [CloseClassifier]
     @ (case classifier_close te of
          Some err \<Rightarrow>
            [Log ErrorLevel ''failed to close classifier''
               [(''subsystem'', FString ''classifier''), (''error'', FError err)]]
        | None \<Rightarrow> [])
     @ [CloseMat, CloseWindow]
     @ (case window_close te of
          Some err \<Rightarrow>
            [Log ErrorLevel ''failed to close window''
               [(''subsystem'', FString ''capture-window''), (''error'', FError err)]]
        | None \<Rightarrow> [])
     @ [CloseCapture]
     @ (case capture_close te of
          Some err \<Rightarrow>
            [Log ErrorLevel ''failed to close capture device''
               [(''subsystem'', FString ''capture''), (''error'', FError err)]]
        | None \<Rightarrow> [])"

definition xmlFile :: string where
  "xmlFile = ''test.xml''"

definition capture_task :: "task_env \<Rightarrow> event list \<times> outcome" where
  "capture_task te =
     (case open_device te of
        Some err \<Rightarrow>
          ([VideoCaptureDevice 0,
            Log ErrorLevel ''failed to open capture device''
              [(''subsystem'', FString ''capture''), (''error'', FError err)]],
           Returned)
      | None \<Rightarrow>
          (let t0 =
                 [VideoCaptureDevice 0, Println ''here 1'', NewWindow ''Face Detect'',
                  Println ''here 2'', Println ''here 3'', Println ''here 4'', Println ''here 5'']
                 @ (if \<not> classifier_load te then
                      [Log ErrorLevel (''failed reading cascade file: '' @ xmlFile)
                         [(''subsystem'', FString ''classifier''), (''file'', FString xmlFile)]]
                    else [])
                 @ [Println ''here 6'',
                    Log DebugLevel (''start reading camera device '' @ Itoa 0) [],
                    Println ''here 7'']
           in case capture_loop te (frames te) of
                (t_loop, True) \<Rightarrow> (t0 @ t_loop @ deferred_closes te, Returned)
              | (t_loop, False) \<Rightarrow> (t0 @ t_loop, Blocked)))"

text \<open>The body of each goroutine the main flow starts.\<close>

fun run_task :: "task_env \<Rightarrow> task \<Rightarrow> event list \<times> outcome" where
  "run_task te (ProfilerTask port) = profiler_task port te"
| "run_task te (AutocertHTTPTask m) = autocert_http_task te"
| "run_task te CaptureTask = capture_task te"

subsection \<open>Reading a trace\<close>

fun is_listen :: "event \<Rightarrow> bool" where
  "is_listen (ListenAndServeTLS s c k) = True"
| "is_listen (ListenAndServe s) = True"
| "is_listen _ = False"

fun is_go :: "event \<Rightarrow> bool" where
  "is_go (Go t) = True"
| "is_go _ = False"

fun is_mkdir :: "event \<Rightarrow> bool" where
  "is_mkdir (MkdirAll p m) = True"
| "is_mkdir _ = False"


fun is_log :: "event \<Rightarrow> bool" where
  "is_log (Log l m fs) = True"
| "is_log _ = False"

fun has_level :: "level \<Rightarrow> event \<Rightarrow> bool" where
  "has_level l (Log l' m fs) = (l = l')"
| "has_level l _ = False"

definition main_listener_calls :: "event list \<Rightarrow> event list" where
  "main_listener_calls tr = filter is_listen tr"

text \<open>\<open>occurs_before P Q tr\<close>: some event with \<open>P\<close> has an event with \<open>Q\<close> after it.\<close>

fun occurs_before :: "(event \<Rightarrow> bool) \<Rightarrow> (event \<Rightarrow> bool) \<Rightarrow> event list \<Rightarrow> bool" where
  "occurs_before P Q [] = False"
| "occurs_before P Q (x # xs) = ((P x \<and> list_ex Q xs) \<or> occurs_before P Q xs)"

text \<open>
  The serving strategy, in the terms of the specification's data model, read off the
  call that starts the main listener: \<open>ListenAndServe\<close> is plain HTTP;
  \<open>ListenAndServeTLS\<close> with a certificate callback of an autocert manager for one host
  is automatic TLS for that host; \<open>ListenAndServeTLS\<close> without a callback is manual
  TLS with the two files of the call.
\<close>

datatype TLSStrategy = Manual path path | Automatic string path | NoTLS

fun strategy_of_call :: "event \<Rightarrow> TLSStrategy option" where
  "strategy_of_call (ListenAndServe s) = Some NoTLS"
| "strategy_of_call (ListenAndServeTLS s c k) =
     (case TLSConfig s of
        None \<Rightarrow> Some (Manual c k)
      | Some tc \<Rightarrow>
          (case GetCertificate tc of
             None \<Rightarrow> Some (Manual c k)
           | Some m \<Rightarrow>
               (case HostPolicy m of
                  [h] \<Rightarrow> Some (Automatic h (Cache m))
                | _ \<Rightarrow> None)))"
| "strategy_of_call _ = None"

text \<open>A run has a strategy when its trace has exactly one call of the main listener.\<close>

definition selected_strategy :: "run \<Rightarrow> TLSStrategy option" where
  "selected_strategy r =
     (case main_listener_calls (trace r) of
        [c] \<Rightarrow> strategy_of_call c
      | _ \<Rightarrow> None)"

text \<open>
  The iterations the capture loop runs on a list of observations: up to and with the
  first one that shows a frame and gets a key.
\<close>

fun iterations :: "frame_obs list \<Rightarrow> frame_obs list" where
  "iterations [] = []"
| "iterations (x # xs) =
     (if \<not> img_empty x \<and> key x \<ge> 0 then [x] else x # iterations xs)"

subsection \<open>Sample inputs\<close>

definition sample_configuration :: configuration where
  "sample_configuration =
     \<lparr>Debug = False,
      System =
        \<lparr>RootDirectory = ''/var/lib/sleepydrive'',
         LogDirectory = ''/var/log/sleepydrive'',
         ArchiveDirectory = ''/var/lib/sleepydrive/archives'',
         BackupDirectory = ''/var/lib/sleepydrive/backups'',
         Username = ''sleepydrive'',
         Timezone = ''UTC'',
         User = \<lparr>Uid = 988, Gid = 988\<rparr>\<rparr>,
      Api =
        \<lparr>Host = ''0.0.0.0'',
         Port = 8080,
         Ssl = \<lparr>Enabled = False,
                CertificateFile = ''/etc/ssl/cert.pem'',
                KeyFile = ''/etc/ssl/key.pem''\<rparr>\<rparr>\<rparr>"

definition sample_ssl_configuration :: configuration where
  "sample_ssl_configuration =
     sample_configuration
       \<lparr>Api := \<lparr>Host = ''0.0.0.0'',
                Port = 8080,
                Ssl = \<lparr>Enabled = True,
                       CertificateFile = ''/etc/ssl/cert.pem'',
                       KeyFile = ''/etc/ssl/key.pem''\<rparr>\<rparr>\<rparr>"

definition sample_globals :: globals where
  "sample_globals =
     \<lparr>configPath = ''/etc/ddu/config.yml'',
      debug = False,
      cfg = sample_configuration,
      DefaultTLSConfig = \<lparr>GetCertificate = None, NextProtos = [''h2'', ''http/1.1'']\<rparr>,
      TLSClientConfig = None\<rparr>"

definition sample_ssl_globals :: globals where
  "sample_ssl_globals = sample_globals\<lparr>cfg := sample_ssl_configuration\<rparr>"

definition sample_frame :: frame_obs where
  "sample_frame = \<lparr>read_ok = True, img_empty = False, rects = [Rect 10 20 60 80], key = - 1\<rparr>"

text \<open>A failed read that leaves an empty image, and a frame shown while Esc is pressed.\<close>

definition failed_read :: frame_obs where
  "failed_read = \<lparr>read_ok = False, img_empty = True, rects = [], key = - 1\<rparr>"

definition key_pressed :: frame_obs where
  "key_pressed = \<lparr>read_ok = True, img_empty = False, rects = [], key = 27\<rparr>"

definition sample_tasks :: task_env where
  "sample_tasks =
     \<lparr>profiler_serve = ServesForever,
      autocert_serve = ServesForever,
      open_device = None,
      classifier_load = True,
      text_size_x = 40,
      frames = [sample_frame],
      capture_close = None,
      window_close = None,
      classifier_close = None\<rparr>"

definition sample_env :: env where
  "sample_env =
     \<lparr>year = 2022,
      pathJoin = (\<lambda>a b. a @ b),
      pathClean = (\<lambda>p. p),
      getwd = Inr ''/root'',
      FromFile = (\<lambda>p. Inr sample_configuration),
      mkdir_install = None,
      logrotate_NewFile = None,
      EnableLogRotation = None,
      WriteToDisk = None,
      mkdir_archive = None,
      mkdir_backup = None,
      main_serve = ServesForever,
      tasks = sample_tasks\<rparr>"

definition sample_flags :: flags where
  "sample_flags =
     \<lparr>pprof = False,
      pprof_block_rate = 0,
      pprof_port = 6060,
      auto_tls = False,
      tls_hostname = [],
      ignore_certificate_errors = False\<rparr>"

definition config_not_found :: error where
  "config_not_found = ErrNotExist ''open /etc/ddu/config.yml: no such file or directory''"

definition permission_denied :: error where
  "permission_denied = ErrOther ''permission denied''"

definition address_in_use :: error where
  "address_in_use = ErrOther ''bind: address already in use''"

section \<open>Properties\<close>

subsection \<open>The events of each part of the run function\<close>

lemma prologue_listen [simp]: "filter is_listen (fst (boot_prologue e f g)) = []"
  by (simp add: boot_prologue_def Let_def ignore_certificate_errors_warning_def)

lemma prologue_go [simp]: "filter is_go (fst (boot_prologue e f g)) = []"
  by (simp add: boot_prologue_def Let_def ignore_certificate_errors_warning_def)

lemma prologue_mkdir [simp]: "filter is_mkdir (fst (boot_prologue e f g)) = []"
  by (simp add: boot_prologue_def Let_def ignore_certificate_errors_warning_def)

lemma prologue_warnings [simp]:
  "filter (has_level WarnLevel) (fst (boot_prologue e f g)) =
     (if ignore_certificate_errors f then [ignore_certificate_errors_warning] else [])"
  by (simp add: boot_prologue_def Let_def ignore_certificate_errors_warning_def)

lemma prologue_globals [simp]:
  "cfg (snd (boot_prologue e f g)) = cfg g"
  "DefaultTLSConfig (snd (boot_prologue e f g)) = DefaultTLSConfig g"
  "TLSClientConfig (snd (boot_prologue e f g)) =
     (if ignore_certificate_errors f then Some \<lparr>InsecureSkipVerify = True\<rparr> else TLSClientConfig g)"
  by (simp_all add: boot_prologue_def Let_def)

lemma provision_listen [simp]: "filter is_listen (provision_directories e sys) = []"
  by (simp add: provision_directories_def split: option.splits)

lemma provision_go [simp]: "filter is_go (provision_directories e sys) = []"
  by (simp add: provision_directories_def split: option.splits)

lemma provision_warnings [simp]: "filter (has_level WarnLevel) (provision_directories e sys) = []"
  by (simp add: provision_directories_def split: option.splits)

lemma provision_mkdir [simp]:
  "filter is_mkdir (provision_directories e sys) =
     [MkdirAll (ArchiveDirectory sys) mode_0755, MkdirAll (BackupDirectory sys) mode_0755]"
  by (simp add: provision_directories_def split: option.splits)

lemma profiler_listen [simp]: "filter is_listen (profiler_setup f) = []"
  by (simp add: profiler_setup_def)

lemma profiler_mkdir [simp]: "filter is_mkdir (profiler_setup f) = []"
  by (simp add: profiler_setup_def)

lemma profiler_warnings [simp]: "filter (has_level WarnLevel) (profiler_setup f) = []"
  by (simp add: profiler_setup_def)

lemma profiler_go [simp]:
  "filter is_go (profiler_setup f) = (if pprof f then [Go (ProfilerTask (pprof_port f))] else [])"
  by (simp add: profiler_setup_def)

lemma after_listen_trace:
  "filter P (trace (after_listen e g t fatal)) =
     filter P t @ (case main_serve e of ServeReturns (Some err) \<Rightarrow> filter P [fatal err] | _ \<Rightarrow> [])"
  by (simp add: after_listen_def split: serve_result.splits option.splits)

subsection \<open>The run function once log rotation and the write succeeded\<close>

lemma rootCmdRun_reached:
  assumes "EnableLogRotation e = None" and "WriteToDisk e = None"
  shows "rootCmdRun e f g =
     (let g' = snd (boot_prologue e f g);
          t3 = fst (boot_prologue e f g) @ provision_directories e (System (cfg g))
               @ [Log InfoLevel ''configuring internal webserver''
                    [(''use_ssl'', FBool (Enabled (Ssl (Api (cfg g))))),
                     (''use_auto_tls'', FBool (auto_tls f \<and> tls_hostname f \<noteq> [])),
                     (''host_address'', FString (Host (Api (cfg g)))),
                     (''host_port'', FInt (Port (Api (cfg g))))]]
               @ profiler_setup f
      in if auto_tls f \<and> tls_hostname f \<noteq> [] then
           serve_auto_tls e g' (System (cfg g)) (tls_hostname f) (new_server g' (Api (cfg g))) t3
         else serve_configured e g' (Api (cfg g)) (new_server g' (Api (cfg g))) t3)"
  using assms
  by (simp add: rootCmdRun_def Let_def case_prod_beta)

lemma new_server_prologue [simp]:
  "new_server (snd (boot_prologue e f g)) api = new_server g api"
  by (simp add: new_server_def)

lemma listener_calls_reached:
  assumes "EnableLogRotation e = None" and "WriteToDisk e = None"
  shows "main_listener_calls (trace (rootCmdRun e f g)) =
     (if auto_tls f \<and> tls_hostname f \<noteq> [] then
        [ListenAndServeTLS
           ((new_server g (Api (cfg g)))
              \<lparr>TLSConfig := Some ((DefaultTLSConfig g)
                 \<lparr>GetCertificate := Some \<lparr>Prompt = AcceptTOS,
                      Cache = pathJoin e (RootDirectory (System (cfg g))) ''/.tls-cache'',
                      HostPolicy = [tls_hostname f]\<rparr>,
                   NextProtos := NextProtos (DefaultTLSConfig g) @ [ALPNProto]\<rparr>)\<rparr>) [] []]
      else if Enabled (Ssl (Api (cfg g))) then
        [ListenAndServeTLS (new_server g (Api (cfg g)))
           (CertificateFile (Ssl (Api (cfg g)))) (KeyFile (Ssl (Api (cfg g))))]
      else [ListenAndServe ((new_server g (Api (cfg g)))\<lparr>TLSConfig := None\<rparr>)])"
  unfolding rootCmdRun_reached [OF assms] main_listener_calls_def
  by (simp add: Let_def serve_auto_tls_def serve_configured_def after_listen_trace new_server_def
      split: serve_result.splits option.splits)

subsection \<open>The serving strategy\<close>

text \<open>
  Claim C1. Once the boot reaches the web server (log rotation and the write of the
  configuration succeeded), the run calls the main listener exactly once, and the
  strategy of that call follows the table: automatic TLS for the given host when
  \<open>--auto-tls\<close> is set and \<open>--tls-hostname\<close> is not empty, whatever \<open>Ssl.Enabled\<close> is;
  otherwise manual TLS with the configured certificate and key files when
  \<open>Ssl.Enabled\<close> is set; otherwise plain HTTP. \<open>config.DefaultTLSConfig\<close> comes without
  a certificate callback, as the process has it at boot.
\<close>

theorem strategy_selection_table:
  assumes "EnableLogRotation e = None" and "WriteToDisk e = None"
    and "GetCertificate (DefaultTLSConfig g) = None"
  shows "selected_strategy (rootCmdRun e f g) =
     Some (if auto_tls f \<and> tls_hostname f \<noteq> [] then
             Automatic (tls_hostname f) (pathJoin e (RootDirectory (System (cfg g))) ''/.tls-cache'')
           else if Enabled (Ssl (Api (cfg g))) then
             Manual (CertificateFile (Ssl (Api (cfg g)))) (KeyFile (Ssl (Api (cfg g))))
           else NoTLS)"
  unfolding selected_strategy_def listener_calls_reached [OF assms(1,2)]
  using assms(3) by (simp add: new_server_def)


text \<open>
  The three rows of the table on the sample inputs.
\<close>

theorem strategy_selection_table_witness:
  "EnableLogRotation sample_env = None \<and> WriteToDisk sample_env = None
   \<and> GetCertificate (DefaultTLSConfig sample_ssl_globals) = None
   \<and> GetCertificate (DefaultTLSConfig sample_globals) = None
   \<and> selected_strategy
        (rootCmdRun sample_env (sample_flags\<lparr>auto_tls := True, tls_hostname := ''example.com''\<rparr>)
           sample_ssl_globals)
       = Some (Automatic ''example.com'' ''/var/lib/sleepydrive/.tls-cache'')
   \<and> selected_strategy (rootCmdRun sample_env sample_flags sample_ssl_globals)
       = Some (Manual ''/etc/ssl/cert.pem'' ''/etc/ssl/key.pem'')
   \<and> selected_strategy (rootCmdRun sample_env sample_flags sample_globals) = Some NoTLS"
  using strategy_selection_table [where e = sample_env and g = sample_ssl_globals
      and f = "sample_flags\<lparr>auto_tls := True, tls_hostname := ''example.com''\<rparr>"]
    strategy_selection_table [where e = sample_env and g = sample_ssl_globals and f = sample_flags]
    strategy_selection_table [where e = sample_env and g = sample_globals and f = sample_flags]
  by (simp add: sample_env_def sample_flags_def sample_globals_def sample_ssl_globals_def
      sample_configuration_def sample_ssl_configuration_def)

lemma listener_calls_unreached:
  assumes "EnableLogRotation e \<noteq> None \<or> WriteToDisk e \<noteq> None"
  shows "main_listener_calls (trace (rootCmdRun e f g)) = []"
  using assms
  by (auto simp add: rootCmdRun_def main_listener_calls_def case_prod_beta split: option.splits)

lemma go_events_reached:
  assumes "EnableLogRotation e = None" and "WriteToDisk e = None"
  shows "filter is_go (trace (rootCmdRun e f g)) =
     (if pprof f then [Go (ProfilerTask (pprof_port f))] else [])
     @ (if auto_tls f \<and> tls_hostname f \<noteq> [] then
          [Go (AutocertHTTPTask \<lparr>Prompt = AcceptTOS,
                 Cache = pathJoin e (RootDirectory (System (cfg g))) ''/.tls-cache'',
                 HostPolicy = [tls_hostname f]\<rparr>)]
        else [Go CaptureTask])"
  unfolding rootCmdRun_reached [OF assms]
  by (simp add: Let_def serve_auto_tls_def serve_configured_def after_listen_trace
      split: serve_result.splits option.splits)

lemma warnings_reached:
  assumes "EnableLogRotation e = None" and "WriteToDisk e = None"
  shows "filter (has_level WarnLevel) (trace (rootCmdRun e f g)) =
     (if ignore_certificate_errors f then [ignore_certificate_errors_warning] else [])"
  unfolding rootCmdRun_reached [OF assms]
  by (simp add: Let_def serve_auto_tls_def serve_configured_def after_listen_trace
      split: serve_result.splits option.splits)

lemma mkdir_events_reached:
  assumes "EnableLogRotation e = None" and "WriteToDisk e = None"
  shows "filter is_mkdir (trace (rootCmdRun e f g)) =
     [MkdirAll (ArchiveDirectory (System (cfg g))) mode_0755,
      MkdirAll (BackupDirectory (System (cfg g))) mode_0755]"
  unfolding rootCmdRun_reached [OF assms]
  by (simp add: Let_def serve_auto_tls_def serve_configured_def after_listen_trace
      split: serve_result.splits option.splits)

lemma occurs_before_append:
  "occurs_before P Q (xs @ ys) =
     (occurs_before P Q xs \<or> (list_ex P xs \<and> list_ex Q ys) \<or> occurs_before P Q ys)"
  by (induction xs) auto

lemma after_listen_prefix:
  "\<exists>rest. trace (after_listen e g t fatal) = t @ rest"
  by (simp add: after_listen_def split: serve_result.splits option.splits)

lemma occurs_before_prefix:
  "occurs_before P Q t \<Longrightarrow> occurs_before P Q (t @ rest)"
  by (simp add: occurs_before_append)

lemma occurs_before_after_listen:
  "occurs_before P Q t \<Longrightarrow> occurs_before P Q (trace (after_listen e g t fatal))"
  using after_listen_prefix [of e g t fatal] by (auto simp add: occurs_before_append)

lemma set_after_listen:
  "x \<in> set t \<Longrightarrow> x \<in> set (trace (after_listen e g t fatal))"
  using after_listen_prefix [of e g t fatal] by auto

text \<open>
  Claim C2, amended. With \<open>--auto-tls\<close> set and an empty host name the run function
  never selects automatic TLS: it goes on as if the flag were unset, to manual TLS
  when \<open>Ssl.Enabled\<close> is set and to plain HTTP otherwise. It logs no warning about
  this (the only warning a run can log is the one of \<open>--ignore-certificate-errors\<close>);
  what shows the downgrade is the info entry "configuring internal webserver" with
  \<open>use_auto_tls = false\<close>, logged before the listener is called.
\<close>

theorem missing_hostname_downgrade:
  assumes "auto_tls f" and "tls_hostname f = []"
    and "EnableLogRotation e = None" and "WriteToDisk e = None"
    and "GetCertificate (DefaultTLSConfig g) = None"
  shows "selected_strategy (rootCmdRun e f g) =
           Some (if Enabled (Ssl (Api (cfg g))) then
                   Manual (CertificateFile (Ssl (Api (cfg g)))) (KeyFile (Ssl (Api (cfg g))))
                 else NoTLS)
       \<and> filter (has_level WarnLevel) (trace (rootCmdRun e f g)) =
           (if ignore_certificate_errors f then [ignore_certificate_errors_warning] else [])
       \<and> occurs_before
           (\<lambda>ev. ev = Log InfoLevel ''configuring internal webserver''
                        [(''use_ssl'', FBool (Enabled (Ssl (Api (cfg g))))),
                         (''use_auto_tls'', FBool False),
                         (''host_address'', FString (Host (Api (cfg g)))),
                         (''host_port'', FInt (Port (Api (cfg g))))])
           is_listen (trace (rootCmdRun e f g))"
proof -
  have "selected_strategy (rootCmdRun e f g) =
           Some (if Enabled (Ssl (Api (cfg g))) then
                   Manual (CertificateFile (Ssl (Api (cfg g)))) (KeyFile (Ssl (Api (cfg g))))
                 else NoTLS)"
    unfolding selected_strategy_def listener_calls_reached [OF assms(3,4)]
    using assms(1,2,5) by (simp add: new_server_def)
  moreover have "occurs_before
           (\<lambda>ev. ev = Log InfoLevel ''configuring internal webserver''
                        [(''use_ssl'', FBool (Enabled (Ssl (Api (cfg g))))),
                         (''use_auto_tls'', FBool False),
                         (''host_address'', FString (Host (Api (cfg g)))),
                         (''host_port'', FInt (Port (Api (cfg g))))])
           is_listen (trace (rootCmdRun e f g))"
    unfolding rootCmdRun_reached [OF assms(3,4)]
    using assms(1,2)
    by (auto simp add: Let_def serve_configured_def occurs_before_append
        intro!: occurs_before_after_listen)
  ultimately show ?thesis
    using warnings_reached [OF assms(3,4)] by simp
qed

theorem missing_hostname_downgrade_witness:
  "auto_tls (sample_flags\<lparr>auto_tls := True\<rparr>)
   \<and> tls_hostname (sample_flags\<lparr>auto_tls := True\<rparr>) = []
   \<and> EnableLogRotation sample_env = None \<and> WriteToDisk sample_env = None
   \<and> GetCertificate (DefaultTLSConfig sample_globals) = None
   \<and> selected_strategy (rootCmdRun sample_env (sample_flags\<lparr>auto_tls := True\<rparr>) sample_globals)
       = Some NoTLS
   \<and> filter (has_level WarnLevel)
        (trace (rootCmdRun sample_env (sample_flags\<lparr>auto_tls := True\<rparr>) sample_globals)) = []"
  using missing_hostname_downgrade [where e = sample_env and g = sample_globals
      and f = "sample_flags\<lparr>auto_tls := True\<rparr>"]
  by (simp add: sample_env_def sample_flags_def sample_globals_def sample_configuration_def)

text \<open>
  Claim C2, as stated, fails: with \<open>--auto-tls\<close>, an empty host name and
  \<open>Ssl.Enabled\<close> set, the run function serves with manual TLS, not plain HTTP, and it
  logs no warning.
\<close>

theorem missing_hostname_selects_manual:
  "selected_strategy (rootCmdRun sample_env (sample_flags\<lparr>auto_tls := True\<rparr>) sample_ssl_globals)
     = Some (Manual ''/etc/ssl/cert.pem'' ''/etc/ssl/key.pem'')
   \<and> filter (has_level WarnLevel)
        (trace (rootCmdRun sample_env (sample_flags\<lparr>auto_tls := True\<rparr>) sample_ssl_globals)) = []"
proof -
  have r: "EnableLogRotation sample_env = None" "WriteToDisk sample_env = None"
    by (simp_all add: sample_env_def)
  show ?thesis
    unfolding selected_strategy_def listener_calls_reached [OF r] warnings_reached [OF r]
    by (simp add: sample_flags_def sample_ssl_globals_def sample_globals_def
        sample_ssl_configuration_def sample_configuration_def new_server_def)
qed

subsection \<open>The goroutines and the listener\<close>

text \<open>
  Claim C3. Under automatic TLS the goroutines the run starts are the profiler (when
  enabled) and autocert's HTTP server; the capture goroutine is not among them: the
  branch returns before the \<open>go\<close> statement of the capture loop.
\<close>

theorem capture_not_started_under_auto_tls:
  "filter is_go
     (trace (rootCmdRun sample_env
        (sample_flags\<lparr>pprof := True, auto_tls := True, tls_hostname := ''example.com''\<rparr>)
        sample_globals))
     = [Go (ProfilerTask 6060),
        Go (AutocertHTTPTask \<lparr>Prompt = AcceptTOS, Cache = ''/var/lib/sleepydrive/.tls-cache'',
              HostPolicy = [''example.com'']\<rparr>)]
   \<and> selected_strategy
       (rootCmdRun sample_env
          (sample_flags\<lparr>pprof := True, auto_tls := True, tls_hostname := ''example.com''\<rparr>)
          sample_globals)
     = Some (Automatic ''example.com'' ''/var/lib/sleepydrive/.tls-cache'')"
proof -
  have r: "EnableLogRotation sample_env = None" "WriteToDisk sample_env = None"
    by (simp_all add: sample_env_def)
  show ?thesis
    unfolding selected_strategy_def listener_calls_reached [OF r] go_events_reached [OF r]
    by (simp add: sample_flags_def sample_globals_def sample_env_def
        sample_configuration_def new_server_def)
qed

text \<open>
  Under the other two strategies the capture goroutine is started before the listener
  is called.
\<close>

lemma capture_started_without_auto_tls:
  assumes "EnableLogRotation e = None" and "WriteToDisk e = None"
    and "\<not> (auto_tls f \<and> tls_hostname f \<noteq> [])"
  shows "occurs_before (\<lambda>ev. ev = Go CaptureTask) is_listen (trace (rootCmdRun e f g))"
  unfolding rootCmdRun_reached [OF assms(1,2)]
  using assms(3)
  by (auto simp add: Let_def serve_configured_def occurs_before_append
      intro!: occurs_before_after_listen)

subsection \<open>How the run function ends\<close>

lemma outcome_after_listen:
  "outcome (after_listen e g t fatal) =
     (case main_serve e of
        ServesForever \<Rightarrow> Blocked
      | ServeReturns (Some err) \<Rightarrow> Exited 1
      | ServeReturns None \<Rightarrow> Returned)"
  by (simp add: after_listen_def split: serve_result.splits option.splits)

lemma final_after_listen [simp]: "final (after_listen e g t fatal) = g"
  by (simp add: after_listen_def split: serve_result.splits option.splits)

lemma outcome_reached:
  assumes "EnableLogRotation e = None" and "WriteToDisk e = None"
  shows "outcome (rootCmdRun e f g) =
     (case main_serve e of
        ServesForever \<Rightarrow> Blocked
      | ServeReturns (Some err) \<Rightarrow> Exited 1
      | ServeReturns None \<Rightarrow> Returned)"
  unfolding rootCmdRun_reached [OF assms]
  by (simp add: Let_def serve_auto_tls_def serve_configured_def outcome_after_listen)

lemma outcome_unreached:
  assumes "EnableLogRotation e \<noteq> None \<or> WriteToDisk e \<noteq> None"
  shows "outcome (rootCmdRun e f g) = Exited 1"
  using assms
  by (auto simp add: rootCmdRun_def case_prod_beta split: option.splits)

lemma tasks_not_read [simp]:
  "boot_prologue (e\<lparr>tasks := te\<rparr>) f g = boot_prologue e f g"
  "provision_directories (e\<lparr>tasks := te\<rparr>) sys = provision_directories e sys"
  "after_listen (e\<lparr>tasks := te\<rparr>) g t fatal = after_listen e g t fatal"
  by (simp_all add: boot_prologue_def provision_directories_def after_listen_def)

lemma tasks_do_not_reach_main_flow:
  "rootCmdRun (e\<lparr>tasks := te\<rparr>) f g = rootCmdRun e f g"
  by (cases "boot_prologue e f g"; cases "EnableLogRotation e"; cases "WriteToDisk e")
    (simp_all add: rootCmdRun_def serve_auto_tls_def serve_configured_def Let_def)

subsection \<open>Plain HTTP\<close>

lemma final_default_tls_config:
  assumes "EnableLogRotation e = None" and "WriteToDisk e = None"
    and "\<not> (auto_tls f \<and> tls_hostname f \<noteq> [])"
  shows "DefaultTLSConfig (final (rootCmdRun e f g)) = DefaultTLSConfig g"
  unfolding rootCmdRun_reached [OF assms(1,2)]
  using assms(3) by (auto simp add: Let_def serve_configured_def)

text \<open>
  Claim C6. When the strategy is plain HTTP, the server handed to \<open>ListenAndServe\<close> is
  the server built with \<open>config.DefaultTLSConfig\<close>, with its \<open>TLSConfig\<close> set to nil:
  it carries no TLS configuration at all, so no certificate callback and no protocol
  list, and \<open>config.DefaultTLSConfig\<close> itself is left as it was.
\<close>

theorem plain_http_clears_tls_config:
  assumes "selected_strategy (rootCmdRun e f g) = Some NoTLS"
  shows "main_listener_calls (trace (rootCmdRun e f g)) =
           [ListenAndServe ((new_server g (Api (cfg g)))\<lparr>TLSConfig := None\<rparr>)]
       \<and> TLSConfig (new_server g (Api (cfg g))) = Some (DefaultTLSConfig g)
       \<and> TLSConfig ((new_server g (Api (cfg g)))\<lparr>TLSConfig := None\<rparr>) = None
       \<and> DefaultTLSConfig (final (rootCmdRun e f g)) = DefaultTLSConfig g"
proof -
  have reached: "EnableLogRotation e = None \<and> WriteToDisk e = None"
  proof (rule ccontr)
    assume "\<not> (EnableLogRotation e = None \<and> WriteToDisk e = None)"
    then have "main_listener_calls (trace (rootCmdRun e f g)) = []"
      by (intro listener_calls_unreached) auto
    with assms show False by (simp add: selected_strategy_def)
  qed
  then have r: "EnableLogRotation e = None" "WriteToDisk e = None" by simp_all
  have "selected_strategy (rootCmdRun e f g) \<noteq> Some NoTLS"
    if "auto_tls f \<and> tls_hostname f \<noteq> []"
    using that unfolding selected_strategy_def listener_calls_reached [OF r]
    by (simp add: new_server_def)
  with assms have not_auto: "\<not> (auto_tls f \<and> tls_hostname f \<noteq> [])"
    by blast
  have "selected_strategy (rootCmdRun e f g) \<noteq> Some NoTLS"
    if "Enabled (Ssl (Api (cfg g)))"
    using that not_auto unfolding selected_strategy_def listener_calls_reached [OF r]
    by (simp add: new_server_def split: option.splits list.splits)
  with assms have not_manual: "\<not> Enabled (Ssl (Api (cfg g)))"
    by blast
  show ?thesis
    using not_auto not_manual listener_calls_reached [OF r, of f g]
      final_default_tls_config [OF r not_auto, of g]
    by (simp add: new_server_def)
qed

theorem plain_http_clears_tls_config_witness:
  "selected_strategy (rootCmdRun sample_env sample_flags sample_globals) = Some NoTLS
   \<and> main_listener_calls (trace (rootCmdRun sample_env sample_flags sample_globals)) =
       [ListenAndServe \<lparr>Addr = ''0.0.0.0:'' @ Itoa 8080, Handler = Configure, TLSConfig = None\<rparr>]
   \<and> DefaultTLSConfig (final (rootCmdRun sample_env sample_flags sample_globals)) =
       \<lparr>GetCertificate = None, NextProtos = [''h2'', ''http/1.1'']\<rparr>"
proof -
  have r: "EnableLogRotation sample_env = None" "WriteToDisk sample_env = None"
    by (simp_all add: sample_env_def)
  have s: "selected_strategy (rootCmdRun sample_env sample_flags sample_globals) = Some NoTLS"
    unfolding selected_strategy_def listener_calls_reached [OF r]
    by (simp add: sample_flags_def sample_globals_def sample_configuration_def)
  show ?thesis
    using s plain_http_clears_tls_config [OF s]
    by (simp add: new_server_def sample_globals_def sample_configuration_def)
qed

subsection \<open>The two directories\<close>

lemma provision_error_logs:
  "mkdir_archive e = Some err \<Longrightarrow>
     Log ErrorLevel ''failed to create archive directory'' [(''error'', FError err)]
       \<in> set (provision_directories e sys)"
  "mkdir_backup e = Some err \<Longrightarrow>
     Log ErrorLevel ''failed to create backup directory'' [(''error'', FError err)]
       \<in> set (provision_directories e sys)"
  by (simp_all add: provision_directories_def)

lemma provision_in_trace:
  assumes "EnableLogRotation e = None" and "WriteToDisk e = None"
    and "x \<in> set (provision_directories e (System (cfg g)))"
  shows "x \<in> set (trace (rootCmdRun e f g))"
  unfolding rootCmdRun_reached [OF assms(1,2)]
  using assms(3)
  by (auto simp add: Let_def serve_auto_tls_def serve_configured_def intro!: set_after_listen)

lemma list_ex_mkdir_provision [simp]: "list_ex is_mkdir (provision_directories e sys)"
  by (simp add: provision_directories_def)

lemma mkdir_before_listen:
  assumes "EnableLogRotation e = None" and "WriteToDisk e = None"
  shows "occurs_before is_mkdir is_listen (trace (rootCmdRun e f g))"
  unfolding rootCmdRun_reached [OF assms(1,2)]
  by (auto simp add: Let_def serve_auto_tls_def serve_configured_def occurs_before_append
      intro!: occurs_before_after_listen)

text \<open>
  Claim C7. Once the boot reaches the directories, both are attempted, the archive
  directory first and then the backup directory, whatever either attempt returns; a
  failed attempt is logged at error level; the boot goes on to the one call of the
  main listener; and how the run ends does not depend on the two results.
\<close>

theorem directories_provisioned_independently:
  assumes "EnableLogRotation e = None" and "WriteToDisk e = None"
  shows "filter is_mkdir (trace (rootCmdRun e f g)) =
           [MkdirAll (ArchiveDirectory (System (cfg g))) mode_0755,
            MkdirAll (BackupDirectory (System (cfg g))) mode_0755]
       \<and> (\<forall>err. mkdir_archive e = Some err \<longrightarrow>
             Log ErrorLevel ''failed to create archive directory'' [(''error'', FError err)]
               \<in> set (trace (rootCmdRun e f g)))
       \<and> (\<forall>err. mkdir_backup e = Some err \<longrightarrow>
             Log ErrorLevel ''failed to create backup directory'' [(''error'', FError err)]
               \<in> set (trace (rootCmdRun e f g)))
       \<and> occurs_before is_mkdir is_listen (trace (rootCmdRun e f g))
       \<and> length (main_listener_calls (trace (rootCmdRun e f g))) = 1
       \<and> outcome (rootCmdRun (e\<lparr>mkdir_archive := a, mkdir_backup := b\<rparr>) f g) =
           outcome (rootCmdRun e f g)"
proof -
  have "outcome (rootCmdRun (e\<lparr>mkdir_archive := a, mkdir_backup := b\<rparr>) f g) =
           outcome (rootCmdRun e f g)"
    using assms by (simp add: outcome_reached)
  then show ?thesis
    using mkdir_events_reached [OF assms] mkdir_before_listen [OF assms]
      provision_in_trace [OF assms] provision_error_logs [of e]
    by (simp add: listener_calls_reached [OF assms])
qed

theorem directories_provisioned_independently_witness:
  "EnableLogRotation (sample_env\<lparr>mkdir_archive := Some permission_denied\<rparr>) = None
   \<and> WriteToDisk (sample_env\<lparr>mkdir_archive := Some permission_denied\<rparr>) = None
   \<and> filter is_mkdir
       (trace (rootCmdRun (sample_env\<lparr>mkdir_archive := Some permission_denied\<rparr>)
          sample_flags sample_globals)) =
       [MkdirAll ''/var/lib/sleepydrive/archives'' mode_0755,
        MkdirAll ''/var/lib/sleepydrive/backups'' mode_0755]
   \<and> Log ErrorLevel ''failed to create archive directory'' [(''error'', FError permission_denied)]
       \<in> set (trace (rootCmdRun (sample_env\<lparr>mkdir_archive := Some permission_denied\<rparr>)
                  sample_flags sample_globals))
   \<and> length (main_listener_calls
       (trace (rootCmdRun (sample_env\<lparr>mkdir_archive := Some permission_denied\<rparr>)
          sample_flags sample_globals))) = 1"
  using directories_provisioned_independently
    [where e = "sample_env\<lparr>mkdir_archive := Some permission_denied\<rparr>"
       and f = sample_flags and g = sample_globals]
  by (simp add: sample_env_def sample_globals_def sample_configuration_def)

subsection \<open>The default transport\<close>

text \<open>
  Claim C10. With \<open>--ignore-certificate-errors\<close> the run function logs its warning and
  sets the \<open>TLSClientConfig\<close> of \<open>http.DefaultTransport\<close> to a configuration with
  \<open>InsecureSkipVerify = true\<close>; without the flag it logs no warning and leaves the
  transport as it was. This holds on every path of the function.
\<close>

theorem ignore_certificate_errors_transport:
  "TLSClientConfig (final (rootCmdRun e f g)) =
     (if ignore_certificate_errors f then Some \<lparr>InsecureSkipVerify = True\<rparr>
      else TLSClientConfig g)
   \<and> filter (has_level WarnLevel) (trace (rootCmdRun e f g)) =
     (if ignore_certificate_errors f then [ignore_certificate_errors_warning] else [])"
proof (cases "EnableLogRotation e = None \<and> WriteToDisk e = None")
  case True
  then have r: "EnableLogRotation e = None" "WriteToDisk e = None" by simp_all
  have "TLSClientConfig (final (rootCmdRun e f g)) =
     (if ignore_certificate_errors f then Some \<lparr>InsecureSkipVerify = True\<rparr>
      else TLSClientConfig g)"
    unfolding rootCmdRun_reached [OF r]
    by (simp add: Let_def serve_auto_tls_def serve_configured_def)
  then show ?thesis using warnings_reached [OF r] by simp
next
  case False
  then show ?thesis
    by (auto simp add: rootCmdRun_def case_prod_beta split: option.splits)
qed

theorem ignore_certificate_errors_transport_witness:
  "TLSClientConfig (final (rootCmdRun sample_env
       (sample_flags\<lparr>ignore_certificate_errors := True\<rparr>) sample_globals)) =
     Some \<lparr>InsecureSkipVerify = True\<rparr>
   \<and> filter (has_level WarnLevel) (trace (rootCmdRun sample_env
       (sample_flags\<lparr>ignore_certificate_errors := True\<rparr>) sample_globals)) =
     [ignore_certificate_errors_warning]
   \<and> TLSClientConfig (final (rootCmdRun sample_env sample_flags sample_globals)) = None"
  using ignore_certificate_errors_transport [where e = sample_env and g = sample_globals
      and f = "sample_flags\<lparr>ignore_certificate_errors := True\<rparr>"]
    ignore_certificate_errors_transport [where e = sample_env and g = sample_globals
      and f = sample_flags]
  by (simp add: sample_flags_def sample_globals_def)

subsection \<open>The steps of the pre-run hook\<close>

lemma and_then_exited:
  "outcome r = Exited n \<Longrightarrow> and_then r k = r"
  by (simp add: and_then_def)

lemma initConfig_outcome:
  "outcome (initConfig e g) = Returned \<or> outcome (initConfig e g) = Exited 1"
  by (simp add: initConfig_def and_then_def Let_def split: sum.splits)

lemma initConfig_exits:
  "(outcome (initConfig e g) = Exited n) =
     (n = 1 \<and>
      (if take 1 (configPath g) = ''/'' then (\<exists>err. FromFile e (configPath g) = Inl err)
       else (case getwd e of
               Inl err \<Rightarrow> True
             | Inr d \<Rightarrow>
                 (\<exists>err. FromFile e (pathClean e (pathJoin e d (configPath g))) = Inl err))))"
  by (auto simp add: initConfig_def and_then_def Let_def split: sum.splits)



lemma initLogging_outcome:
  "outcome (initLogging e g) = Returned \<or> outcome (initLogging e g) = Exited 1"
  by (simp add: initLogging_def Let_def split: option.splits)

lemma initLogging_exits:
  "outcome (initLogging e g) =
     (if mkdir_install e \<noteq> None \<or> logrotate_NewFile e \<noteq> None then Exited 1 else Returned)"
  by (simp add: initLogging_def Let_def split: option.splits)


lemma PreRun_outcome:
  "outcome (PreRun e f g) =
     (if outcome (initConfig e g) = Exited 1 \<or> mkdir_install e \<noteq> None
         \<or> logrotate_NewFile e \<noteq> None \<or> (auto_tls f \<and> tls_hostname f = [])
      then Exited 1 else Returned)"
  using initConfig_outcome [of e g]
  by (auto simp add: PreRun_def and_then_def Let_def initLogging_exits)





subsection \<open>The flag validation of the pre-run hook\<close>




subsection \<open>The capture loop\<close>

lemma annotate_no_read_error [simp]:
  "filter (\<lambda>ev. ev = cannot_read_device) (concat (map (annotate te) rs)) = []"
  by (induction rs) (simp_all add: annotate_def cannot_read_device_def)

lemma annotate_no_imshow [simp]:
  "filter (\<lambda>ev. ev = IMShow) (concat (map (annotate te) rs)) = []"
  by (induction rs) (simp_all add: annotate_def)

lemma annotate_no_fatal [simp]:
  "filter (has_level FatalLevel) (concat (map (annotate te) rs)) = []"
  by (induction rs) (simp_all add: annotate_def)

lemma cannot_read_device_distinct [simp]:
  "Log DebugLevel m fs \<noteq> cannot_read_device"
  "IMShow \<noteq> cannot_read_device"
  "WaitKey k \<noteq> cannot_read_device"
  "cannot_read_device \<noteq> IMShow"
  "\<not> has_level FatalLevel cannot_read_device"
  by (simp_all add: cannot_read_device_def)

lemma capture_loop_break:
  "snd (capture_loop te fs) = (\<exists>x\<in>set fs. \<not> img_empty x \<and> key x \<ge> 0)"
  by (induction fs) (auto simp add: Let_def case_prod_beta)

lemma capture_loop_read_errors:
  "length (filter (\<lambda>ev. ev = cannot_read_device) (fst (capture_loop te fs))) =
     length (filter (\<lambda>x. \<not> read_ok x) (iterations fs))"
  by (induction fs) (auto simp add: Let_def case_prod_beta)

lemma capture_loop_shown:
  "length (filter (\<lambda>ev. ev = IMShow) (fst (capture_loop te fs))) =
     length (filter (\<lambda>x. \<not> img_empty x) (iterations fs))"
  by (induction fs) (auto simp add: Let_def case_prod_beta)

lemma capture_loop_goes_on:
  "\<not> snd (capture_loop te fs) \<Longrightarrow> iterations fs = fs"
  by (induction fs) (auto simp add: Let_def case_prod_beta split: if_splits)

lemma capture_loop_no_fatal:
  "filter (has_level FatalLevel) (fst (capture_loop te fs)) = []"
  by (induction fs) (auto simp add: Let_def case_prod_beta)

lemma capture_loop_logs_read_error:
  "x \<in> set (iterations fs) \<Longrightarrow> \<not> read_ok x \<Longrightarrow>
     cannot_read_device \<in> set (fst (capture_loop te fs))"
  by (induction fs) (auto simp add: Let_def case_prod_beta split: if_splits)

text \<open>
  Claim C9. The capture loop reaches \<open>break\<close> exactly when some iteration shows a
  frame and \<open>WaitKey\<close> returns a key; until then it runs every iteration it is given.
  Each failed read is logged once and each non-empty frame is shown once; an
  iteration with an empty frame or without a key never ends the loop, and whether
  the read failed has no influence on whether the loop ends. Once the device is
  open, the goroutine returns only through that \<open>break\<close>.
\<close>

theorem capture_loop_exits_only_on_key:
  "snd (capture_loop te fs) = (\<exists>x\<in>set fs. \<not> img_empty x \<and> key x \<ge> 0)
   \<and> (\<not> snd (capture_loop te fs) \<longrightarrow> iterations fs = fs)
   \<and> length (filter (\<lambda>ev. ev = cannot_read_device) (fst (capture_loop te fs))) =
       length (filter (\<lambda>x. \<not> read_ok x) (iterations fs))
   \<and> length (filter (\<lambda>ev. ev = IMShow) (fst (capture_loop te fs))) =
       length (filter (\<lambda>x. \<not> img_empty x) (iterations fs))
   \<and> (img_empty x \<or> key x < 0 \<longrightarrow>
        snd (capture_loop te (x # fs)) = snd (capture_loop te fs))
   \<and> snd (capture_loop te (x\<lparr>read_ok := False\<rparr> # fs)) = snd (capture_loop te (x # fs))
   \<and> (open_device te = None \<longrightarrow>
        (snd (capture_task te) = Returned) =
          (\<exists>x\<in>set (frames te). \<not> img_empty x \<and> key x \<ge> 0))"
proof -
  have task: "open_device te = None \<longrightarrow>
        (snd (capture_task te) = Returned) =
          (\<exists>x\<in>set (frames te). \<not> img_empty x \<and> key x \<ge> 0)"
    using capture_loop_break [of te "frames te"]
    by (auto simp add: capture_task_def Let_def split: prod.splits bool.splits)
  have step: "img_empty x \<or> key x < 0 \<longrightarrow>
        snd (capture_loop te (x # fs)) = snd (capture_loop te fs)"
    using capture_loop_break [of te "x # fs"] capture_loop_break [of te fs]
    by (auto simp del: capture_loop.simps)
  have read: "snd (capture_loop te (x\<lparr>read_ok := False\<rparr> # fs)) = snd (capture_loop te (x # fs))"
    using capture_loop_break [of te "x\<lparr>read_ok := False\<rparr> # fs"]
      capture_loop_break [of te "x # fs"]
    by (simp del: capture_loop.simps)
  show ?thesis
    using task step read capture_loop_break [of te fs] capture_loop_goes_on [of te fs]
      capture_loop_read_errors [of te fs] capture_loop_shown [of te fs]
    by blast
qed

theorem capture_loop_exits_only_on_key_witness:
  "\<not> snd (capture_loop sample_tasks [failed_read, sample_frame, failed_read])
   \<and> iterations [failed_read, sample_frame, failed_read] = [failed_read, sample_frame, failed_read]
   \<and> length (filter (\<lambda>ev. ev = cannot_read_device)
        (fst (capture_loop sample_tasks [failed_read, sample_frame, failed_read]))) = 2
   \<and> snd (capture_loop sample_tasks [failed_read, key_pressed, sample_frame])
   \<and> iterations [failed_read, key_pressed, sample_frame] = [failed_read, key_pressed]"
  using capture_loop_exits_only_on_key
      [where te = sample_tasks and fs = "[failed_read, sample_frame, failed_read]"
         and x = failed_read]
    capture_loop_exits_only_on_key
      [where te = sample_tasks and fs = "[failed_read, key_pressed, sample_frame]"
         and x = failed_read]
  by (simp add: failed_read_def key_pressed_def sample_frame_def)

subsection \<open>Failures inside the goroutines\<close>

text \<open>
  Claim C5, as stated, fails: when the profiler's \<open>http.ListenAndServe\<close> returns a
  bind error, the goroutine returns and nothing is logged.
\<close>

theorem profiler_bind_failure_not_logged:
  "profiler_task 6060 (sample_tasks\<lparr>profiler_serve := ServeReturns (Some address_in_use)\<rparr>) =
     ([HttpListenAndServe (''localhost:'' @ Itoa 6060)], Returned)
   \<and> filter is_log
       (fst (profiler_task 6060
          (sample_tasks\<lparr>profiler_serve := ServeReturns (Some address_in_use)\<rparr>))) = []"
  by (simp add: profiler_task_def)

lemma deferred_no_fatal [simp]:
  "filter (has_level FatalLevel) (deferred_closes te) = []"
  by (simp add: deferred_closes_def split: option.splits)

lemma run_task_no_fatal:
  "filter (has_level FatalLevel) (fst (run_task te tk)) = []"
proof (cases tk)
  case (ProfilerTask port)
  then show ?thesis by (simp add: profiler_task_def)
next
  case (AutocertHTTPTask m)
  then show ?thesis
    by (simp add: autocert_http_task_def split: serve_result.splits option.splits)
next
  case CaptureTask
  then show ?thesis
    using capture_loop_no_fatal [of te "frames te"]
    by (auto simp add: capture_task_def Let_def split: option.splits prod.splits bool.splits)
qed

lemma run_task_never_exits:
  "snd (run_task te tk) \<noteq> Exited n"
proof (cases tk)
  case (ProfilerTask port)
  then show ?thesis by (simp add: profiler_task_def split: serve_result.splits)
next
  case (AutocertHTTPTask m)
  then show ?thesis
    by (simp add: autocert_http_task_def split: serve_result.splits option.splits)
next
  case CaptureTask
  then show ?thesis
    by (auto simp add: capture_task_def Let_def split: option.splits prod.splits bool.splits)
qed

lemma capture_task_model_failure:
  "open_device te = None \<Longrightarrow> \<not> classifier_load te \<Longrightarrow>
     Log ErrorLevel (''failed reading cascade file: '' @ xmlFile)
       [(''subsystem'', FString ''classifier''), (''file'', FString xmlFile)]
     \<in> set (fst (capture_task te))"
  by (auto simp add: capture_task_def Let_def split: prod.splits bool.splits)

lemma capture_task_frame_failure:
  "open_device te = None \<Longrightarrow> x \<in> set (iterations (frames te)) \<Longrightarrow> \<not> read_ok x \<Longrightarrow>
     cannot_read_device \<in> set (fst (capture_task te))"
  using capture_loop_logs_read_error [where x = x and fs = "frames te" and te = te]
  by (auto simp add: capture_task_def Let_def split: prod.splits bool.splits)

text \<open>
  Claim C5, amended. A failure to open the capture device is logged at error level
  and ends the capture goroutine; a failure to load the cascade file and each failed
  frame read are logged at error level; the error of the profiler's endpoint is
  dropped without a log entry. No goroutine ends the process or logs at fatal level,
  and the main flow is the same whatever the goroutines meet.
\<close>

theorem best_effort_failures:
  "(\<forall>err. open_device te = Some err \<longrightarrow>
      capture_task te =
        ([VideoCaptureDevice 0,
          Log ErrorLevel ''failed to open capture device''
            [(''subsystem'', FString ''capture''), (''error'', FError err)]], Returned))
   \<and> (open_device te = None \<and> \<not> classifier_load te \<longrightarrow>
        Log ErrorLevel (''failed reading cascade file: '' @ xmlFile)
          [(''subsystem'', FString ''classifier''), (''file'', FString xmlFile)]
        \<in> set (fst (capture_task te)))
   \<and> (open_device te = None \<and> (\<exists>x\<in>set (iterations (frames te)). \<not> read_ok x) \<longrightarrow>
        cannot_read_device \<in> set (fst (capture_task te)))
   \<and> filter is_log (fst (profiler_task port te)) = []
   \<and> snd (run_task te tk) \<noteq> Exited n
   \<and> filter (has_level FatalLevel) (fst (run_task te tk)) = []
   \<and> rootCmdRun (e\<lparr>tasks := te\<rparr>) f g = rootCmdRun e f g"
proof -
  have device: "\<forall>err. open_device te = Some err \<longrightarrow>
      capture_task te =
        ([VideoCaptureDevice 0,
          Log ErrorLevel ''failed to open capture device''
            [(''subsystem'', FString ''capture''), (''error'', FError err)]], Returned)"
    by (simp add: capture_task_def)
  have profiler: "filter is_log (fst (profiler_task port te)) = []"
    by (simp add: profiler_task_def)
  show ?thesis
    using device profiler capture_task_model_failure [of te] capture_task_frame_failure [of te]
      run_task_never_exits [of te tk n] run_task_no_fatal [of te tk]
      tasks_do_not_reach_main_flow [where e = e and te = te and f = f and g = g]
    by blast
qed

theorem best_effort_failures_witness:
  "capture_task (sample_tasks\<lparr>open_device := Some permission_denied\<rparr>) =
     ([VideoCaptureDevice 0,
       Log ErrorLevel ''failed to open capture device''
         [(''subsystem'', FString ''capture''), (''error'', FError permission_denied)]], Returned)
   \<and> snd (run_task (sample_tasks\<lparr>open_device := Some permission_denied\<rparr>) CaptureTask) \<noteq> Exited 1
   \<and> rootCmdRun (sample_env\<lparr>tasks := sample_tasks\<lparr>open_device := Some permission_denied\<rparr>\<rparr>)
        sample_flags sample_globals
     = rootCmdRun sample_env sample_flags sample_globals"
  using best_effort_failures [where te = "sample_tasks\<lparr>open_device := Some permission_denied\<rparr>"
      and tk = CaptureTask and n = 1 and e = sample_env and f = sample_flags
      and g = sample_globals and port = 6060]
  by (simp add: sample_tasks_def)

subsection \<open>Which failures end the process\<close>

lemma rootCmdRun_exits:
  "(outcome (rootCmdRun e f g) = Exited n) =
     (n = 1 \<and> (EnableLogRotation e \<noteq> None \<or> WriteToDisk e \<noteq> None
               \<or> (\<exists>err. main_serve e = ServeReturns (Some err))))"
proof (cases "EnableLogRotation e = None \<and> WriteToDisk e = None")
  case True
  then show ?thesis
    by (auto simp add: outcome_reached split: serve_result.splits option.splits)
next
  case False
  then have "outcome (rootCmdRun e f g) = Exited 1"
    by (intro outcome_unreached) auto
  with False show ?thesis by auto
qed

lemma Execute_exits:
  "(outcome (Execute e f g) = Exited n) =
     (n = 1 \<and> (outcome (initConfig e g) = Exited 1 \<or> mkdir_install e \<noteq> None
               \<or> logrotate_NewFile e \<noteq> None \<or> (auto_tls f \<and> tls_hostname f = [])
               \<or> EnableLogRotation e \<noteq> None \<or> WriteToDisk e \<noteq> None
               \<or> (\<exists>err. main_serve e = ServeReturns (Some err))))"
proof (cases "outcome (PreRun e f g) = Returned")
  case True
  then have "outcome (Execute e f g) = outcome (rootCmdRun e f (final (PreRun e f g)))"
    by (simp add: Execute_def and_then_def Let_def)
  moreover from True have "\<not> (outcome (initConfig e g) = Exited 1 \<or> mkdir_install e \<noteq> None
         \<or> logrotate_NewFile e \<noteq> None \<or> (auto_tls f \<and> tls_hostname f = []))"
    by (simp add: PreRun_outcome split: if_splits)
  ultimately show ?thesis
    using rootCmdRun_exits [of e f "final (PreRun e f g)" n] by auto
next
  case False
  then have p: "outcome (PreRun e f g) = Exited 1"
    by (simp add: PreRun_outcome split: if_splits)
  then have "Execute e f g = PreRun e f g"
    unfolding Execute_def by (rule and_then_exited)
  with p have "outcome (Execute e f g) = Exited 1" by simp
  moreover from False have "outcome (initConfig e g) = Exited 1 \<or> mkdir_install e \<noteq> None
         \<or> logrotate_NewFile e \<noteq> None \<or> (auto_tls f \<and> tls_hostname f = [])"
    by (simp add: PreRun_outcome split: if_splits)
  ultimately show ?thesis by auto
qed

lemma fatal_entry_log_rotation:
  assumes "EnableLogRotation e = Some err"
  shows "last (trace (rootCmdRun e f g)) =
     Log FatalLevel ''failed to configure log rotation on the system'' [(''error'', FError err)]"
  using assms by (simp add: rootCmdRun_def case_prod_beta)

lemma fatal_entry_write_to_disk:
  assumes "EnableLogRotation e = None" and "WriteToDisk e = Some err"
  shows "last (trace (rootCmdRun e f g)) =
     Log FatalLevel ''failed to write configuration to disk'' [(''error'', FError err)]"
  using assms by (simp add: rootCmdRun_def case_prod_beta)

lemma fatal_entry_listener:
  assumes "EnableLogRotation e = None" and "WriteToDisk e = None"
    and "main_serve e = ServeReturns (Some err)"
  shows "last (trace (rootCmdRun e f g)) =
     (if auto_tls f \<and> tls_hostname f \<noteq> [] then
        Log FatalLevel ''failed to configure HTTP server using auto-tls''
          [(''auto_tls'', FBool True), (''tls_hostname'', FString (tls_hostname f)),
           (''error'', FError err)]
      else if Enabled (Ssl (Api (cfg g))) then
        Log FatalLevel ''failed to configure HTTPS server''
          [(''auto_tls'', FBool False), (''error'', FError err)]
      else
        Log FatalLevel ''failed to configure HTTP server'' [(''error'', FError err)])"
  unfolding rootCmdRun_reached [OF assms(1,2)]
  using assms(3)
  by (simp add: Let_def serve_auto_tls_def serve_configured_def after_listen_def)

text \<open>
  Claim C4, as stated, fails: a failure to set up log rotation ends the process with
  status 1 before any listener is called, and it is neither a configuration-load
  error nor a listener error.
\<close>

theorem log_rotation_failure_is_fatal:
  "outcome (rootCmdRun (sample_env\<lparr>EnableLogRotation := Some permission_denied\<rparr>)
      sample_flags sample_globals) = Exited 1
   \<and> main_listener_calls
       (trace (rootCmdRun (sample_env\<lparr>EnableLogRotation := Some permission_denied\<rparr>)
          sample_flags sample_globals)) = []"
  by (simp add: outcome_unreached listener_calls_unreached)

text \<open>
  Claim C4, amended. The run function ends the process, always with status 1, in
  exactly three cases, and in each the last thing it does is the \<open>log.Fatal\<close> entry of
  that case: log rotation cannot be set up, the configuration cannot be written to
  disk, or the main listener returns an error (with the entry of the strategy it was
  called under). For the whole command the cases of the pre-run hook are added, also
  with status 1: the configuration cannot be loaded, which is exactly when
  \<open>os.Getwd\<close> fails for a relative path or \<open>config.FromFile\<close> fails; the log
  directory or the log file cannot be created; or \<open>--auto-tls\<close> comes without a host
  name. When log rotation and the write succeed the boot reaches the one call of the
  main listener; a directory that cannot be created is logged at error level; and
  the results of creating the two directories and of the goroutines do not change
  how the run ends.
\<close>

theorem fatal_exits_of_boot:
  "(outcome (rootCmdRun e f g) = Exited n) =
     (n = 1 \<and> (EnableLogRotation e \<noteq> None \<or> WriteToDisk e \<noteq> None
               \<or> (\<exists>err. main_serve e = ServeReturns (Some err))))
   \<and> (\<forall>err. EnableLogRotation e = Some err \<longrightarrow>
         last (trace (rootCmdRun e f g)) =
           Log FatalLevel ''failed to configure log rotation on the system''
             [(''error'', FError err)])
   \<and> (\<forall>err. EnableLogRotation e = None \<and> WriteToDisk e = Some err \<longrightarrow>
         last (trace (rootCmdRun e f g)) =
           Log FatalLevel ''failed to write configuration to disk'' [(''error'', FError err)])
   \<and> (\<forall>err. EnableLogRotation e = None \<and> WriteToDisk e = None
             \<and> main_serve e = ServeReturns (Some err) \<longrightarrow>
         last (trace (rootCmdRun e f g)) =
           (if auto_tls f \<and> tls_hostname f \<noteq> [] then
              Log FatalLevel ''failed to configure HTTP server using auto-tls''
                [(''auto_tls'', FBool True), (''tls_hostname'', FString (tls_hostname f)),
                 (''error'', FError err)]
            else if Enabled (Ssl (Api (cfg g))) then
              Log FatalLevel ''failed to configure HTTPS server''
                [(''auto_tls'', FBool False), (''error'', FError err)]
            else
              Log FatalLevel ''failed to configure HTTP server'' [(''error'', FError err)]))
   \<and> (outcome (initConfig e g) = Exited n) =
       (n = 1 \<and>
        (if take 1 (configPath g) = ''/'' then (\<exists>err. FromFile e (configPath g) = Inl err)
         else (case getwd e of
                 Inl err \<Rightarrow> True
               | Inr d \<Rightarrow>
                   (\<exists>err. FromFile e (pathClean e (pathJoin e d (configPath g))) = Inl err))))
   \<and> (outcome (Execute e f g) = Exited n) =
       (n = 1 \<and> (outcome (initConfig e g) = Exited 1 \<or> mkdir_install e \<noteq> None
                 \<or> logrotate_NewFile e \<noteq> None \<or> (auto_tls f \<and> tls_hostname f = [])
                 \<or> EnableLogRotation e \<noteq> None \<or> WriteToDisk e \<noteq> None
                 \<or> (\<exists>err. main_serve e = ServeReturns (Some err))))
   \<and> (EnableLogRotation e = None \<and> WriteToDisk e = None \<longrightarrow>
        length (main_listener_calls (trace (rootCmdRun e f g))) = 1
        \<and> (\<forall>err. mkdir_archive e = Some err \<longrightarrow>
              Log ErrorLevel ''failed to create archive directory'' [(''error'', FError err)]
                \<in> set (trace (rootCmdRun e f g)))
        \<and> (\<forall>err. mkdir_backup e = Some err \<longrightarrow>
              Log ErrorLevel ''failed to create backup directory'' [(''error'', FError err)]
                \<in> set (trace (rootCmdRun e f g))))
   \<and> outcome (rootCmdRun (e\<lparr>mkdir_archive := a, mkdir_backup := b, tasks := te\<rparr>) f g) =
       outcome (rootCmdRun e f g)"
proof -
  have reach: "EnableLogRotation e = None \<and> WriteToDisk e = None \<longrightarrow>
        length (main_listener_calls (trace (rootCmdRun e f g))) = 1
        \<and> (\<forall>err. mkdir_archive e = Some err \<longrightarrow>
              Log ErrorLevel ''failed to create archive directory'' [(''error'', FError err)]
                \<in> set (trace (rootCmdRun e f g)))
        \<and> (\<forall>err. mkdir_backup e = Some err \<longrightarrow>
              Log ErrorLevel ''failed to create backup directory'' [(''error'', FError err)]
                \<in> set (trace (rootCmdRun e f g)))"
    using provision_in_trace [of e _ g f] provision_error_logs [of e]
    by (simp add: listener_calls_reached)
  have indep: "outcome (rootCmdRun (e\<lparr>mkdir_archive := a, mkdir_backup := b, tasks := te\<rparr>) f g) =
       outcome (rootCmdRun e f g)"
  proof (cases "EnableLogRotation e = None \<and> WriteToDisk e = None")
    case True
    then show ?thesis by (simp add: outcome_reached)
  next
    case False
    then show ?thesis
      using outcome_unreached [of e f g]
        outcome_unreached [of "e\<lparr>mkdir_archive := a, mkdir_backup := b, tasks := te\<rparr>" f g]
      by auto
  qed
  have rot: "\<forall>err. EnableLogRotation e = Some err \<longrightarrow>
         last (trace (rootCmdRun e f g)) =
           Log FatalLevel ''failed to configure log rotation on the system''
             [(''error'', FError err)]"
    by (simp add: fatal_entry_log_rotation)
  have wr: "\<forall>err. EnableLogRotation e = None \<and> WriteToDisk e = Some err \<longrightarrow>
         last (trace (rootCmdRun e f g)) =
           Log FatalLevel ''failed to write configuration to disk'' [(''error'', FError err)]"
    by (simp add: fatal_entry_write_to_disk)
  have li: "\<forall>err. EnableLogRotation e = None \<and> WriteToDisk e = None
             \<and> main_serve e = ServeReturns (Some err) \<longrightarrow>
         last (trace (rootCmdRun e f g)) =
           (if auto_tls f \<and> tls_hostname f \<noteq> [] then
              Log FatalLevel ''failed to configure HTTP server using auto-tls''
                [(''auto_tls'', FBool True), (''tls_hostname'', FString (tls_hostname f)),
                 (''error'', FError err)]
            else if Enabled (Ssl (Api (cfg g))) then
              Log FatalLevel ''failed to configure HTTPS server''
                [(''auto_tls'', FBool False), (''error'', FError err)]
            else
              Log FatalLevel ''failed to configure HTTP server'' [(''error'', FError err)])"
    using fatal_entry_listener [of e _ f g] by blast
  from rootCmdRun_exits [of e f g n] rot wr li initConfig_exits [of e g n]
    Execute_exits [of e f g n] reach indep
  show ?thesis by blast
qed

theorem fatal_exits_of_boot_witness:
  "outcome (rootCmdRun (sample_env\<lparr>WriteToDisk := Some permission_denied\<rparr>)
      sample_flags sample_globals) = Exited 1
   \<and> last (trace (rootCmdRun (sample_env\<lparr>WriteToDisk := Some permission_denied\<rparr>)
      sample_flags sample_globals)) =
       Log FatalLevel ''failed to write configuration to disk''
         [(''error'', FError permission_denied)]
   \<and> outcome (rootCmdRun (sample_env\<lparr>main_serve := ServeReturns (Some address_in_use)\<rparr>)
      sample_flags sample_globals) = Exited 1
   \<and> last (trace (rootCmdRun (sample_env\<lparr>main_serve := ServeReturns (Some address_in_use)\<rparr>)
      sample_flags sample_globals)) =
       Log FatalLevel ''failed to configure HTTP server'' [(''error'', FError address_in_use)]
   \<and> outcome (initConfig (sample_env\<lparr>FromFile := (\<lambda>p. Inl config_not_found)\<rparr>)
      sample_globals) = Exited 1
   \<and> outcome (Execute (sample_env\<lparr>FromFile := (\<lambda>p. Inl config_not_found)\<rparr>)
      sample_flags sample_globals) = Exited 1
   \<and> outcome (Execute (sample_env\<lparr>mkdir_install := Some permission_denied\<rparr>)
      sample_flags sample_globals) = Exited 1
   \<and> EnableLogRotation (sample_env\<lparr>mkdir_archive := Some permission_denied\<rparr>) = None
   \<and> WriteToDisk (sample_env\<lparr>mkdir_archive := Some permission_denied\<rparr>) = None
   \<and> length (main_listener_calls
        (trace (rootCmdRun (sample_env\<lparr>mkdir_archive := Some permission_denied\<rparr>)
           sample_flags sample_globals))) = 1
   \<and> Log ErrorLevel ''failed to create archive directory'' [(''error'', FError permission_denied)]
       \<in> set (trace (rootCmdRun (sample_env\<lparr>mkdir_archive := Some permission_denied\<rparr>)
                  sample_flags sample_globals))"
proof -
  note t = fatal_exits_of_boot [where f = sample_flags and g = sample_globals and n = 1
      and a = None and b = None and te = sample_tasks]
  have s: "EnableLogRotation sample_env = None" "WriteToDisk sample_env = None"
    "mkdir_archive sample_env = None" "take 1 (configPath sample_globals) = ''/''"
    "auto_tls sample_flags = False" "Enabled (Ssl (Api (cfg sample_globals))) = False"
    by (simp_all add: sample_env_def sample_globals_def sample_flags_def
        sample_configuration_def)
  have w: "outcome (rootCmdRun (sample_env\<lparr>WriteToDisk := Some permission_denied\<rparr>)
      sample_flags sample_globals) = Exited 1
    \<and> last (trace (rootCmdRun (sample_env\<lparr>WriteToDisk := Some permission_denied\<rparr>)
      sample_flags sample_globals)) =
       Log FatalLevel ''failed to write configuration to disk''
         [(''error'', FError permission_denied)]"
    using t [where e = "sample_env\<lparr>WriteToDisk := Some permission_denied\<rparr>"]
    by (simp add: s)
  have l: "outcome (rootCmdRun (sample_env\<lparr>main_serve := ServeReturns (Some address_in_use)\<rparr>)
      sample_flags sample_globals) = Exited 1
    \<and> last (trace (rootCmdRun (sample_env\<lparr>main_serve := ServeReturns (Some address_in_use)\<rparr>)
      sample_flags sample_globals)) =
       Log FatalLevel ''failed to configure HTTP server'' [(''error'', FError address_in_use)]"
    using t [where e = "sample_env\<lparr>main_serve := ServeReturns (Some address_in_use)\<rparr>"]
    by (simp add: s)
  have c: "outcome (initConfig (sample_env\<lparr>FromFile := (\<lambda>p. Inl config_not_found)\<rparr>)
      sample_globals) = Exited 1"
    using t [where e = "sample_env\<lparr>FromFile := (\<lambda>p. Inl config_not_found)\<rparr>",
        THEN conjunct2, THEN conjunct2, THEN conjunct2, THEN conjunct2, THEN conjunct1]
    by (simp add: sample_globals_def)
  have x: "outcome (Execute (sample_env\<lparr>FromFile := (\<lambda>p. Inl config_not_found)\<rparr>)
      sample_flags sample_globals) = Exited 1"
    using t [where e = "sample_env\<lparr>FromFile := (\<lambda>p. Inl config_not_found)\<rparr>",
        THEN conjunct2, THEN conjunct2, THEN conjunct2, THEN conjunct2, THEN conjunct2,
        THEN conjunct1] c
    by simp
  have i: "outcome (Execute (sample_env\<lparr>mkdir_install := Some permission_denied\<rparr>)
      sample_flags sample_globals) = Exited 1"
    using t [where e = "sample_env\<lparr>mkdir_install := Some permission_denied\<rparr>",
        THEN conjunct2, THEN conjunct2, THEN conjunct2, THEN conjunct2, THEN conjunct2,
        THEN conjunct1]
    by simp
  have d: "length (main_listener_calls
        (trace (rootCmdRun (sample_env\<lparr>mkdir_archive := Some permission_denied\<rparr>)
           sample_flags sample_globals))) = 1
    \<and> Log ErrorLevel ''failed to create archive directory'' [(''error'', FError permission_denied)]
       \<in> set (trace (rootCmdRun (sample_env\<lparr>mkdir_archive := Some permission_denied\<rparr>)
                  sample_flags sample_globals))"
    using t [where e = "sample_env\<lparr>mkdir_archive := Some permission_denied\<rparr>"]
    by (simp add: s)
  show ?thesis using w l c x i d by (simp add: s)
qed

end
